theory Spec2Isabelle
  imports Main
begin

section \<open>go-fetch-rss: data model\<close>

text \<open>
  The feed structures of \<^verbatim>\<open>go-fetch-rss/go-fetch-rss.go\<close>. \<^verbatim>\<open>Items []*Item\<close> is
  a list of items: the XML decoder allocates every element, so no element is nil.
  The channel's \<^verbatim>\<open>Title\<close> field is named \<open>ChannelTitle\<close>, since a record field
  name cannot be shared with \<open>Item\<close>. A Go byte slice is a list of 8-bit characters, and
  so is a Go string: \<^verbatim>\<open>[]byte(s)\<close> is the identity.
\<close>

type_synonym bytes = string

record Item =
  Title :: string
  Guid :: string
  PublishDate :: string
  Link :: string

record Channel =
  ChannelTitle :: string
  Items :: "Item list"

record Response =
  Ch :: Channel

text \<open>The value of \<^verbatim>\<open>var r Response\<close> before decoding: every field is zero.\<close>

definition zero_Response :: Response where
  "zero_Response = \<lparr>Ch = \<lparr>ChannelTitle = [], Items = []\<rparr>\<rparr>"

definition dateFormat :: string where
  "dateFormat = ''2006-01-02''"

text \<open>
  The command-line flags after \<^verbatim>\<open>flag.Parse()\<close>, one field for each flag variable of
  \<^verbatim>\<open>main\<close>.
\<close>

record flags =
  url :: string
  outputDir :: string
  fileExtension :: string
  redirectFileExtension :: string
  targetDate :: string
  dryRun :: bool
  verbose :: bool

subsection \<open>The standard library's values\<close>

text \<open>
  A Go \<^verbatim>\<open>error\<close> is a message, or the \<^verbatim>\<open>*url.Error\<close> in which the HTTP client wraps
  the error of a failed request. A \<^verbatim>\<open>*url.URL\<close> is known by its \<^verbatim>\<open>Scheme\<close> field and by
  the text that its \<^verbatim>\<open>String()\<close> method returns.
\<close>

datatype error = ErrorString string | UrlError error

record URL =
  Scheme :: string
  Text :: string

definition URL_String :: "URL \<Rightarrow> string" where
  "URL_String u = Text u"

text \<open>
  The \<^verbatim>\<open>Location\<close> header of a response: absent, present but not parseable, or present
  and resolved against the URL of the request to the absolute URL \<open>u\<close>.
\<close>

datatype location = NoLocation | BadLocation error | Loc URL

text \<open>
  A response body is a stream: \<open>delivered\<close> are the bytes that it yields, \<open>failure\<close> is the
  error that ends it, if it does not end at EOF. \<^verbatim>\<open>io.ReadAll\<close> returns both.
\<close>

record body =
  delivered :: bytes
  failure :: "error option"

definition io_ReadAll :: "body \<Rightarrow> bytes \<times> error option" where
  "io_ReadAll b = (delivered b, failure b)"

record http_Response =
  StatusCode :: int
  Location :: location
  Body :: body

text \<open>\<^verbatim>\<open>(*http.Response).Location()\<close>: the resolved URL, or nil with an error.\<close>

definition Response_Location :: "http_Response \<Rightarrow> URL option \<times> error option" where
  "Response_Location r =
     (case Location r of
        NoLocation \<Rightarrow> (None, Some (ErrorString ''http: no Location header in response''))
      | BadLocation e \<Rightarrow> (None, Some e)
      | Loc u \<Rightarrow> (Some u, None))"

subsection \<open>Effects\<close>

text \<open>
  What the program does to the outside world is a trace of events, oldest first:
  \<^item> \<open>Printf f args\<close> is the call \<^verbatim>\<open>fmt.Printf(f, args...)\<close>, \<open>Println s\<close> the call
    \<^verbatim>\<open>fmt.Println(s)\<close>;
  \<^item> \<open>HttpRequest u\<close> is one GET request for the URL \<open>u\<close>, sent by the HTTP client;
  \<^item> \<open>WriteFile d n c\<close> is the call \<^verbatim>\<open>os.WriteFile(path.Join(d, n), c, 0666)\<close>.
  A nil pointer or a nil error handed to \<open>Printf\<close> is \<open>None\<close>.
\<close>

datatype arg = S string | T bool | D nat | E "error option" | U "URL option"

datatype event =
    is_Printf: Printf string "arg list"
  | is_Println: Println string
  | is_HttpRequest: HttpRequest string
  | is_WriteFile: WriteFile string string bytes

text \<open>
  A run ends normally or in a panic. Every function below returns the way it ended and
  the trace so far; the value \<open>None\<close> is a run that never ends.
\<close>

datatype control = Normal | Panic string

definition nil_dereference :: string where
  "nil_dereference = ''invalid memory address or nil pointer dereference''"

text \<open>
  The environment, which the program does not control:
  \<^item> \<open>send tr u\<close> is what one GET request for \<open>u\<close> comes back with, after the events \<open>tr\<close>:
    an error (of the transport, or for a URL that is not one or has a scheme without a
    protocol) or a response;
  \<^item> \<open>time_Parse\<close> and \<open>time_Format\<close> are \<^verbatim>\<open>time.Parse\<close> and \<^verbatim>\<open>(Time).Format\<close>, over a type
    \<open>'t\<close> of time values;
  \<^item> \<open>xml_Unmarshal b r\<close> is \<^verbatim>\<open>xml.Unmarshal(b, &r)\<close>: the value of \<open>r\<close> afterwards and the
    error returned.
\<close>

datatype send_result = SendError error | Reply http_Response

record 't env =
  send :: "event list \<Rightarrow> string \<Rightarrow> send_result"
  time_Parse :: "string \<Rightarrow> string \<Rightarrow> error + 't"
  time_Format :: "'t \<Rightarrow> string \<Rightarrow> string"
  xml_Unmarshal :: "bytes \<Rightarrow> Response \<Rightarrow> Response \<times> error option"

section \<open>The HTTP client\<close>

text \<open>
  \<^verbatim>\<open>net/http\<close> follows the redirects of a GET request in a loop (\<^verbatim>\<open>Client.do\<close>). A response
  with status 301, 302, 303, 307 or 308 is a redirect. One without a \<^verbatim>\<open>Location\<close> header is
  returned as it is; one whose header does not parse is an error. Otherwise the client asks
  its \<^verbatim>\<open>CheckRedirect\<close> policy, with the requests made so far (\<open>via\<close>, oldest first): when
  the policy returns an error, \<^verbatim>\<open>Get\<close> returns the redirect response \<^emph>\<open>and\<close> the wrapped
  error, the only case of a response with an error; when it returns nil, the client
  requests the target. No bound on the number of redirects is built into the loop: it is
  the default policy that has one. A policy receives the
  upcoming request, of which it reads \<^verbatim>\<open>req.Response\<close>, the redirect response: that is
  its first argument here.
\<close>

definition shouldRedirect :: "int \<Rightarrow> bool" where
  "shouldRedirect c = (c = 301 \<or> c = 302 \<or> c = 303 \<or> c = 307 \<or> c = 308)"

type_synonym policy = "http_Response \<Rightarrow> string list \<Rightarrow> error option"

type_synonym get_result = "http_Response option \<times> error option"

partial_function (option) client_do ::
  "(event list \<Rightarrow> string \<Rightarrow> send_result) \<Rightarrow> policy \<Rightarrow> event list \<Rightarrow> string \<Rightarrow> string list
     \<Rightarrow> (get_result \<times> event list) option" where
  "client_do net check tr req via =
     (case net tr req of
        SendError e \<Rightarrow> Some ((None, Some (UrlError e)), tr @ [HttpRequest req])
      | Reply resp \<Rightarrow>
          if \<not> shouldRedirect (StatusCode resp)
          then Some ((Some resp, None), tr @ [HttpRequest req])
          else (case Location resp of
                  NoLocation \<Rightarrow> Some ((Some resp, None), tr @ [HttpRequest req])
                | BadLocation e \<Rightarrow> Some ((None, Some (UrlError e)), tr @ [HttpRequest req])
                | Loc u \<Rightarrow>
                    (case check resp (via @ [req]) of
                       Some e \<Rightarrow> Some ((Some resp, Some (UrlError e)), tr @ [HttpRequest req])
                     | None \<Rightarrow>
                         client_do net check (tr @ [HttpRequest req]) (URL_String u)
                           (via @ [req]))))"

definition client_Get ::
  "(event list \<Rightarrow> string \<Rightarrow> send_result) \<Rightarrow> policy \<Rightarrow> event list \<Rightarrow> string
     \<Rightarrow> (get_result \<times> event list) option" where
  "client_Get net check tr u = client_do net check tr u []"

text \<open>
  \<^verbatim>\<open>http.Get\<close> is \<^verbatim>\<open>Get\<close> of the default client, whose policy gives up after ten
  requests.
\<close>

definition defaultCheckRedirect :: policy where
  "defaultCheckRedirect resp via =
     (if length via \<ge> 10 then Some (ErrorString ''stopped after 10 redirects'') else None)"

definition http_Get ::
  "(event list \<Rightarrow> string \<Rightarrow> send_result) \<Rightarrow> event list \<Rightarrow> string
     \<Rightarrow> (get_result \<times> event list) option" where
  "http_Get net tr u = client_Get net defaultCheckRedirect tr u"

section \<open>The program\<close>

text \<open>
  The \<^verbatim>\<open>CheckRedirect\<close> closure of \<^verbatim>\<open>main\<close>: an error stops the client when the scheme
  of the redirect's target is the redirect file extension.
\<close>

definition CheckRedirect :: "string \<Rightarrow> policy" where
  "CheckRedirect redirExt resp via =
     (case fst (Response_Location resp) of
        None \<Rightarrow> None
      | Some loc \<Rightarrow>
          if Scheme loc = redirExt then Some (ErrorString ''caught redirect'') else None)"

definition http_StatusFound :: int where
  "http_StatusFound = 302"

definition http_StatusOK :: int where
  "http_StatusOK = 200"

text \<open>\<^verbatim>\<open>fmt.Sprintf("%s.%s", title, ext)\<close>.\<close>

definition file_name :: "string \<Rightarrow> string \<Rightarrow> string" where
  "file_name title ext = title @ ''.'' @ ext"

text \<open>
  What \<^verbatim>\<open>main\<close> does with the result of \<^verbatim>\<open>client.Get(item.Link)\<close>: the rest of the loop
  body. The three tests of the source are made in its order, \<^verbatim>\<open>itemRes != nil\<close> being the
  case distinction on \<open>itemRes\<close>. \<^verbatim>\<open>loc.String()\<close> on a nil \<open>loc\<close> and
  \<^verbatim>\<open>itemRes.StatusCode\<close> on a nil \<open>itemRes\<close> panic.
\<close>

definition error_fetching :: "Item \<Rightarrow> error option \<Rightarrow> event" where
  "error_fetching item err =
     Printf ''Error fetching: %s err: %s\<newline>'' [S (Title item), E err]"

definition after_fetch :: "flags \<Rightarrow> Item \<Rightarrow> get_result \<Rightarrow> event list \<Rightarrow> control \<times> event list" where
  "after_fetch fl item res tr =
     (case res of
        (None, err) \<Rightarrow>
          if err \<noteq> None then (Normal, tr @ [error_fetching item err])
          else (Panic nil_dereference, tr)
      | (Some r, err) \<Rightarrow>
          if err \<noteq> None \<and> StatusCode r = http_StatusFound
          then (case fst (Response_Location r) of
                  None \<Rightarrow>
                    (Panic nil_dereference,
                     tr @ [Printf ''Got 302. Writing %s\<newline>'' [U None]])
                | Some loc \<Rightarrow>
                    (Normal,
                     tr @ [Printf ''Got 302. Writing %s\<newline>'' [U (Some loc)],
                           WriteFile (outputDir fl)
                             (file_name (Title item) (redirectFileExtension fl))
                             (URL_String loc)]))
          else if err \<noteq> None then (Normal, tr @ [error_fetching item err])
          else if StatusCode r = http_StatusOK
          then (Normal,
                tr @ [Printf ''Writing %s\<newline>'' [S (Title item)],
                      WriteFile (outputDir fl)
                        (file_name (Title item) (fileExtension fl))
                        (fst (io_ReadAll (Body r))),
                      Printf ''Done %s\<newline>'' [S (Title item)]])
          else (Normal, tr @ [Printf ''Done %s\<newline>'' [S (Title item)]]))"

text \<open>
  The body of the loop over the items, for one item: the date is parsed and compared, then
  the link is fetched with the client whose policy is \<open>CheckRedirect\<close>.
\<close>

definition parse_date :: "'t env \<Rightarrow> Item \<Rightarrow> error + 't" where
  "parse_date env item = time_Parse env ''Mon, 2 Jan 2006 15:04:05 +0000'' (PublishDate item)"

definition fetch_item ::
  "'t env \<Rightarrow> flags \<Rightarrow> event list \<Rightarrow> Item \<Rightarrow> (get_result \<times> event list) option" where
  "fetch_item env fl tr item =
     client_Get (send env) (CheckRedirect (redirectFileExtension fl))
       (tr @ [Printf ''Doing %s\<newline>'' [S (Title item)]]) (Link item)"

definition process_item ::
  "'t env \<Rightarrow> flags \<Rightarrow> event list \<Rightarrow> Item \<Rightarrow> (control \<times> event list) option" where
  "process_item env fl tr item =
     (case parse_date env item of
        Inl e \<Rightarrow>
          Some (Normal,
                tr @ [Printf ''Err parsing time: %s %s\<newline>'' [S (Title item), E (Some e)]])
      | Inr t \<Rightarrow>
          if targetDate fl \<noteq> time_Format env t dateFormat
          then Some (Normal,
                 if verbose fl
                 then tr @ [Printf ''Skipping, date mismatch: %s %s\<newline>''
                              [S (Title item), S (time_Format env t dateFormat)]]
                 else tr)
          else if dryRun fl
          then Some (Normal,
                 tr @ [Printf ''Skipping download, dry run enabled %s\<newline>%s\<newline>''
                         [S (Title item), S (Link item)]])
          else (case fetch_item env fl tr item of
                  None \<Rightarrow> None
                | Some (res, tr') \<Rightarrow> Some (after_fetch fl item res tr')))"

text \<open>The loop: a panic ends it, an item whose request never returns hangs it.\<close>

fun run_items ::
  "'t env \<Rightarrow> flags \<Rightarrow> event list \<Rightarrow> Item list \<Rightarrow> (control \<times> event list) option" where
  "run_items env fl tr [] = Some (Normal, tr)"
| "run_items env fl tr (item # items) =
     (case process_item env fl tr item of
        None \<Rightarrow> None
      | Some (Panic p, tr') \<Rightarrow> Some (Panic p, tr')
      | Some (Normal, tr') \<Rightarrow> run_items env fl tr' items)"

definition banner :: "flags \<Rightarrow> event" where
  "banner fl =
     Printf ''go-fetch-rss DryRun: %t Date: %s OutputDir: %s FileExtension: %s URL: %s\<newline>''
       [T (dryRun fl), S (targetDate fl), S (outputDir fl), S (fileExtension fl), S (url fl)]"

definition main :: "'t env \<Rightarrow> flags \<Rightarrow> (control \<times> event list) option" where
  "main env fl =
     (if url fl = [] then Some (Normal, [Println ''Error, URL is required.''])
      else
        (case http_Get (send env) [banner fl] (url fl) of
           None \<Rightarrow> None
         | Some ((None, err), tr) \<Rightarrow> Some (Panic nil_dereference, tr)
         | Some ((Some res, err), tr) \<Rightarrow>
             if StatusCode res \<noteq> 200
             then Some (Normal, tr @ [Printf ''Error fetching! %s'' [E err]])
             else
               (case xml_Unmarshal env (fst (io_ReadAll (Body res))) zero_Response of
                  (r, _) \<Rightarrow>
                    (case run_items env fl
                            (tr @ [Printf ''Found %d items, starting download...\<newline>''
                                     [D (length (Items (Ch r)))]])
                            (Items (Ch r)) of
                       None \<Rightarrow> None
                     | Some (Panic p, tr') \<Rightarrow> Some (Panic p, tr')
                     | Some (Normal, tr') \<Rightarrow> Some (Normal, tr' @ [Println ''Done all!''])))))"

section \<open>A small world for the examples\<close>

text \<open>
  One environment on which the program can be run by the simplifier: a host with a
  feed that breaks off in its second item, a page, a page that has moved, three links
  that redirect to a URL with the scheme \<open>redirect\<close>, a link that is gone and a page
  whose body breaks off; everything else is unreachable. Its clock reads two dates.
\<close>

definition demo_flags :: flags where
  "demo_flags =
     \<lparr>url = ''http://h/feed'', outputDir = ''out'', fileExtension = ''file'',
      redirectFileExtension = ''redirect'', targetDate = ''2024-01-11'', dryRun = False,
      verbose = False\<rparr>"

definition thu :: string where
  "thu = ''Thu, 11 Jan 2024 21:00:00 +0000''"

definition fri :: string where
  "fri = ''Fri, 12 Jan 2024 09:30:00 +0000''"

definition demo_item :: "string \<Rightarrow> string \<Rightarrow> Item" where
  "demo_item date link = \<lparr>Title = ''t'', Guid = ''g'', PublishDate = date, Link = link\<rparr>"

definition reply :: "int \<Rightarrow> location \<Rightarrow> bytes \<Rightarrow> error option \<Rightarrow> http_Response" where
  "reply c l b f = \<lparr>StatusCode = c, Location = l, Body = \<lparr>delivered = b, failure = f\<rparr>\<rparr>"

definition target :: URL where
  "target = \<lparr>Scheme = ''redirect'', Text = ''redirect:?xt=1''\<rparr>"

definition demo_feed :: bytes where
  "demo_feed =
     ''<rss><channel><item><title>t</title><guid>g</guid>'' @
     ''<pubDate>Thu, 11 Jan 2024 21:00:00 +0000</pubDate><link>http://h/ok</link></item><item>''"

definition demo_send :: "event list \<Rightarrow> string \<Rightarrow> send_result" where
  "demo_send tr u =
     (if u = ''http://h/feed'' then Reply (reply 200 NoLocation demo_feed None)
      else if u = ''http://h/ok'' then Reply (reply 200 NoLocation ''ABC'' None)
      else if u = ''http://h/moved''
      then Reply (reply 301 (Loc \<lparr>Scheme = ''http'', Text = ''http://h/ok''\<rparr>) [] None)
      else if u = ''http://h/found'' then Reply (reply 302 (Loc target) [] None)
      else if u = ''http://h/perm'' then Reply (reply 301 (Loc target) [] None)
      else if u = ''http://h/temp'' then Reply (reply 307 (Loc target) [] None)
      else if u = ''http://h/gone'' then Reply (reply 404 NoLocation ''no'' None)
      else if u = ''http://h/cut''
      then Reply (reply 200 NoLocation ''AB'' (Some (ErrorString ''unexpected EOF'')))
      else SendError (ErrorString ''no such host''))"

definition demo_Parse :: "string \<Rightarrow> string \<Rightarrow> error + string" where
  "demo_Parse layout v =
     (if v = ''Thu, 11 Jan 2024 21:00:00 +0000'' then Inr ''2024-01-11''
      else if v = ''Fri, 12 Jan 2024 09:30:00 +0000'' then Inr ''2024-01-12''
      else Inl (ErrorString ''cannot parse''))"

definition demo_Unmarshal :: "bytes \<Rightarrow> Response \<Rightarrow> Response \<times> error option" where
  "demo_Unmarshal b r =
     (if b = demo_feed
      then (r\<lparr>Ch := (Ch r)\<lparr>Items := [demo_item thu ''http://h/ok'']\<rparr>\<rparr>,
            Some (ErrorString ''XML syntax error: unexpected EOF''))
      else (r, Some (ErrorString ''EOF'')))"

definition demo_env :: "string env" where
  "demo_env =
     \<lparr>send = demo_send, time_Parse = demo_Parse, time_Format = (\<lambda>t f. t),
      xml_Unmarshal = demo_Unmarshal\<rparr>"

lemmas demo_defs = demo_flags_def demo_item_def reply_def target_def demo_send_def demo_Parse_def
  demo_env_def thu_def fri_def parse_date_def fetch_item_def client_Get_def client_do.simps
  CheckRedirect_def Response_Location_def shouldRedirect_def process_item_def after_fetch_def
  dateFormat_def http_StatusOK_def http_StatusFound_def error_fetching_def file_name_def
  io_ReadAll_def URL_String_def

section \<open>The HTTP client under the redirect policy\<close>

lemmas client_do_induct = client_do.raw_induct [rotated 1, consumes 1, case_names step]

text \<open>
  The client adds nothing to the trace but its requests.
\<close>

lemma client_do_trace:
  assumes "client_do net check tr req via = Some y"
  shows "\<exists>hs. snd y = tr @ hs \<and> list_all is_HttpRequest hs"
  using assms
proof (induction rule: client_do_induct)
  case (step f net check tr req via y)
  show ?case
  proof (cases "\<exists>resp u. net tr req = Reply resp \<and> shouldRedirect (StatusCode resp)
                  \<and> Location resp = Loc u \<and> check resp (via @ [req]) = None")
    case True
    then obtain resp u where r: "net tr req = Reply resp" "shouldRedirect (StatusCode resp)"
      "Location resp = Loc u" "check resp (via @ [req]) = None" by blast
    with step(2)
    have "f net check (tr @ [HttpRequest req]) (URL_String u) (via @ [req]) = Some y"
      by simp
    from step(1)[OF this] obtain hs where
      "snd y = (tr @ [HttpRequest req]) @ hs" "list_all is_HttpRequest hs" by blast
    then have "snd y = tr @ (HttpRequest req # hs) \<and> list_all is_HttpRequest (HttpRequest req # hs)"
      by simp
    then show ?thesis by blast
  next
    case False
    with step(2) have "snd y = tr @ [HttpRequest req]"
      by (auto split: send_result.splits if_splits location.splits option.splits)
    then show ?thesis by simp
  qed
qed

text \<open>
  With the policy of \<^verbatim>\<open>main\<close>, \<^verbatim>\<open>Get\<close> returns a response or an error, and both only when
  the policy stopped a redirect to the sentinel scheme; and it never returns such a
  redirect without the error.
\<close>

lemma client_do_stopped:
  assumes "client_do net (CheckRedirect ext) tr req via = Some y"
  shows "case fst y of
           (None, err) \<Rightarrow> err \<noteq> None
         | (Some r, None) \<Rightarrow> True
         | (Some r, Some e) \<Rightarrow>
             e = UrlError (ErrorString ''caught redirect'') \<and> shouldRedirect (StatusCode r) \<and>
             (\<exists>u. Location r = Loc u \<and> Scheme u = ext)"
  using assms
proof (induction net "CheckRedirect ext" tr req via y rule: client_do_induct)
  case (step f net tr req via y)
  then show ?case
    by (auto split: send_result.splits if_splits location.splits option.splits
          simp: CheckRedirect_def Response_Location_def)
qed

lemma client_do_sentinel:
  assumes "client_do net (CheckRedirect ext) tr req via = Some y"
  shows "case fst y of
           (None, err) \<Rightarrow> True
         | (Some r, err) \<Rightarrow>
             shouldRedirect (StatusCode r) \<longrightarrow>
             (\<forall>u. Location r = Loc u \<longrightarrow> Scheme u = ext \<longrightarrow> err \<noteq> None)"
  using assms
proof (induction net "CheckRedirect ext" tr req via y rule: client_do_induct)
  case (step f net tr req via y)
  then show ?case
    by (auto split: send_result.splits if_splits location.splits option.splits
          simp: CheckRedirect_def Response_Location_def)
qed

lemma fetch_item_trace:
  assumes "fetch_item env fl tr item = Some (res, tr')"
  shows "\<exists>hs. tr' = tr @ Printf ''Doing %s\<newline>'' [S (Title item)] # hs \<and> list_all is_HttpRequest hs"
  using client_do_trace [of "send env" "CheckRedirect (redirectFileExtension fl)"
      "tr @ [Printf ''Doing %s\<newline>'' [S (Title item)]]" "Link item" "[]" "(res, tr')"] assms
  by (simp add: fetch_item_def client_Get_def)

lemma fetch_item_caught:
  assumes "fetch_item env fl tr item = Some ((Some r, err), tr')"
    and "shouldRedirect (StatusCode r)" and "Location r = Loc loc"
    and "Scheme loc = redirectFileExtension fl"
  shows "err = Some (UrlError (ErrorString ''caught redirect''))"
proof -
  have d: "client_do (send env) (CheckRedirect (redirectFileExtension fl))
        (tr @ [Printf ''Doing %s\<newline>'' [S (Title item)]]) (Link item) [] = Some ((Some r, err), tr')"
    using assms(1) by (simp add: fetch_item_def client_Get_def)
  from client_do_sentinel [OF d] assms(2-4) obtain e where e: "err = Some e" by auto
  with client_do_stopped [OF d] show ?thesis by simp
qed

lemma fetch_item_error:
  assumes "fetch_item env fl tr item = Some ((res, Some e), tr')"
  shows "res = None \<or> (\<exists>r loc. res = Some r \<and> e = UrlError (ErrorString ''caught redirect'') \<and>
           shouldRedirect (StatusCode r) \<and> Location r = Loc loc \<and> Scheme loc = redirectFileExtension fl)"
proof -
  have d: "client_do (send env) (CheckRedirect (redirectFileExtension fl))
        (tr @ [Printf ''Doing %s\<newline>'' [S (Title item)]]) (Link item) [] = Some ((res, Some e), tr')"
    using assms(1) by (simp add: fetch_item_def client_Get_def)
  from client_do_stopped [OF d] show ?thesis by (cases res) auto
qed

lemma fetch_item_no_error:
  assumes "fetch_item env fl tr item = Some ((res, None), tr')"
  shows "res \<noteq> None"
proof -
  have d: "client_do (send env) (CheckRedirect (redirectFileExtension fl))
        (tr @ [Printf ''Doing %s\<newline>'' [S (Title item)]]) (Link item) [] = Some ((res, None), tr')"
    using assms(1) by (simp add: fetch_item_def client_Get_def)
  from client_do_stopped [OF d] show ?thesis by (cases res) auto
qed

lemma after_fetch_Normal:
  assumes "fetch_item env fl tr item = Some (res, tr')"
  shows "fst (after_fetch fl item res tr') = Normal"
proof (cases res)
  case (Pair r err)
  show ?thesis
  proof (cases err)
    case None
    with Pair assms fetch_item_no_error [of env fl tr item r tr'] show ?thesis
      by (auto simp: after_fetch_def)
  next
    case (Some e)
    with Pair assms fetch_item_error [of env fl tr item r e tr'] show ?thesis
      by (auto simp: after_fetch_def Response_Location_def)
  qed
qed

lemma process_item_Normal:
  assumes "process_item env fl tr item = Some (c, tr')"
  shows "c = Normal"
proof (cases "\<exists>t. parse_date env item = Inr t \<and> targetDate fl = time_Format env t dateFormat \<and> \<not> dryRun fl")
  case True
  then obtain t where t: "parse_date env item = Inr t" "targetDate fl = time_Format env t dateFormat"
    "\<not> dryRun fl" by blast
  with assms obtain res tr1 where f: "fetch_item env fl tr item = Some (res, tr1)"
    and a: "after_fetch fl item res tr1 = (c, tr')"
    by (auto simp: process_item_def split: option.splits)
  from after_fetch_Normal [OF f] a show ?thesis by simp
next
  case False
  with assms show ?thesis
    by (auto simp: process_item_def split: sum.splits if_splits)
qed

lemma run_items_Normal:
  "run_items env fl tr items = Some (c, tr') \<Longrightarrow> c = Normal"
proof (induction items arbitrary: tr)
  case Nil
  then show ?case by simp
next
  case (Cons item items)
  then show ?case
    by (auto split: option.splits control.splits dest: process_item_Normal)
qed

lemma run_items_step:
  assumes "process_item env fl tr item = Some (Normal, tr')"
  shows "run_items env fl tr (item # items) = run_items env fl tr' items"
  using assms by simp

section \<open>The fetch of one item\<close>

lemma process_item_fetches:
  assumes "parse_date env item = Inr t" and "time_Format env t dateFormat = targetDate fl"
    and "\<not> dryRun fl" and "fetch_item env fl tr item = Some (res, tr')"
  shows "process_item env fl tr item = Some (after_fetch fl item res tr')"
  using assms by (simp add: process_item_def)

text \<open>
  Claim C1, as amended. For every item that is fetched (its date parses and equals the
  target date, and dry-run is off) and whose fetch returns a redirect response with status
  302 whose \<^verbatim>\<open>Location\<close> URL has the redirect extension as its scheme, the program, after
  its requests, writes exactly one file, \<^verbatim>\<open><title>.<redir-ext>\<close> in the output directory,
  whose content is the text of the redirect's target URL; it writes no content file, and
  goes on to the next item.
\<close>

theorem redirect_found_is_captured:
  assumes "parse_date env item = Inr t" and "time_Format env t dateFormat = targetDate fl"
    and "\<not> dryRun fl"
    and "fetch_item env fl tr item = Some ((Some r, err), tr')"
    and "StatusCode r = 302" and "Location r = Loc loc"
    and "Scheme loc = redirectFileExtension fl"
  shows "\<exists>hs. list_all is_HttpRequest hs \<and>
           process_item env fl tr item =
             Some (Normal,
               tr @ Printf ''Doing %s\<newline>'' [S (Title item)] # hs @
               [Printf ''Got 302. Writing %s\<newline>'' [U (Some loc)],
                WriteFile (outputDir fl) (Title item @ ''.'' @ redirectFileExtension fl)
                  (URL_String loc)])"
proof -
  have "shouldRedirect (StatusCode r)"
    using assms(5) by (simp add: shouldRedirect_def)
  from fetch_item_caught [OF assms(4) this assms(6,7)]
  have err: "err = Some (UrlError (ErrorString ''caught redirect''))" .
  from fetch_item_trace [OF assms(4)] obtain hs where
    hs: "tr' = tr @ Printf ''Doing %s\<newline>'' [S (Title item)] # hs" "list_all is_HttpRequest hs"
    by blast
  have "after_fetch fl item (Some r, err) tr' =
          (Normal, tr' @ [Printf ''Got 302. Writing %s\<newline>'' [U (Some loc)],
             WriteFile (outputDir fl) (Title item @ ''.'' @ redirectFileExtension fl)
               (URL_String loc)])"
    using err assms(5,6)
    by (simp add: after_fetch_def http_StatusFound_def Response_Location_def file_name_def)
  with process_item_fetches [OF assms(1-4)] hs show ?thesis by auto
qed

text \<open>
  C1, at the link that answers 302 with a \<open>redirect\<close> URL.
\<close>

theorem redirect_found_is_captured_witness:
  "fetch_item demo_env demo_flags [] (demo_item thu ''http://h/found'') =
     Some ((Some (reply 302 (Loc target) [] None),
            Some (UrlError (ErrorString ''caught redirect''))),
           [Printf ''Doing %s\<newline>'' [S ''t''], HttpRequest ''http://h/found''])
   \<and> process_item demo_env demo_flags [] (demo_item thu ''http://h/found'') =
     Some (Normal,
       [Printf ''Doing %s\<newline>'' [S ''t''], HttpRequest ''http://h/found'',
        Printf ''Got 302. Writing %s\<newline>'' [U (Some target)],
        WriteFile ''out'' ''t.redirect'' ''redirect:?xt=1''])"
proof -
  let ?item = "demo_item thu ''http://h/found''"
  have 1: "parse_date demo_env ?item = Inr ''2024-01-11''"
    by (simp add: demo_defs)
  have 2: "time_Format demo_env ''2024-01-11'' dateFormat = targetDate demo_flags"
    by (simp add: demo_defs)
  have 3: "\<not> dryRun demo_flags"
    by (simp add: demo_defs)
  have 4: "fetch_item demo_env demo_flags [] ?item =
      Some ((Some (reply 302 (Loc target) [] None),
            Some (UrlError (ErrorString ''caught redirect''))),
           [Printf ''Doing %s\<newline>'' [S ''t''], HttpRequest ''http://h/found''])"
    by (simp add: demo_defs)
  have 5: "StatusCode (reply 302 (Loc target) [] None) = 302"
    by (simp add: reply_def)
  have 6: "Location (reply 302 (Loc target) [] None) = Loc target"
    by (simp add: reply_def)
  have 7: "Scheme target = redirectFileExtension demo_flags"
    by (simp add: demo_defs)
  from redirect_found_is_captured [OF 1 2 3 4 5 6 7] 4 show ?thesis
    by (simp add: demo_defs)
qed

text \<open>
  C1 as stated fails: the link \<^verbatim>\<open>http://h/perm\<close> answers 301 with a \<^verbatim>\<open>Location\<close> whose
  scheme is the redirect extension. The policy stops the client, but \<^verbatim>\<open>main\<close> asks for status
  302 before it writes: the item ends in the error branch and no file is written.
\<close>

theorem redirect_moved_permanently_counterexample:
  "send demo_env [Printf ''Doing %s\<newline>'' [S ''t'']] ''http://h/perm'' =
     Reply (reply 301 (Loc \<lparr>Scheme = redirectFileExtension demo_flags, Text = ''redirect:?xt=1''\<rparr>) [] None)
   \<and> process_item demo_env demo_flags [] (demo_item thu ''http://h/perm'') =
     Some (Normal,
       [Printf ''Doing %s\<newline>'' [S ''t''], HttpRequest ''http://h/perm'',
        Printf ''Error fetching: %s err: %s\<newline>''
          [S ''t'', E (Some (UrlError (ErrorString ''caught redirect'')))]])"
  by (simp add: demo_defs)

text \<open>
  The branch that prints \<^verbatim>\<open>Got 302\<close> and writes the redirect file is taken only with an
  error and a response of status 302.
\<close>

lemma after_fetch_found_only:
  assumes "after_fetch fl item (res, err) tr' =
             (Normal,
              tr' @ [Printf ''Got 302. Writing %s\<newline>'' [U (Some loc)],
                     WriteFile d n c])"
  shows "err \<noteq> None \<and> (\<exists>r. res = Some r \<and> StatusCode r = 302)"
proof (cases res)
  case None
  with assms show ?thesis
    by (simp add: after_fetch_def error_fetching_def split: if_splits)
next
  case (Some r)
  with assms show ?thesis
    by (simp add: after_fetch_def error_fetching_def http_StatusFound_def
          split: if_splits option.splits)
qed

text \<open>
  Claim C3. For every item that is fetched, the program prints \<^verbatim>\<open>Got 302\<close> and writes the
  redirect file only when the fetch returned an error and a response with status 302.
  When the policy stops the redirect chain at a response to the sentinel scheme with
  another redirect status (301, 303, 307 or 308), no file is written: after its requests
  the program prints the generic \<^verbatim>\<open>Error fetching\<close> line, with the policy's error, and
  the loop continues with the items that follow.
\<close>

theorem redirect_other_status_not_captured:
  assumes "parse_date env item = Inr t" and "time_Format env t dateFormat = targetDate fl"
    and "\<not> dryRun fl"
    and "fetch_item env fl tr item = Some ((res, err), tr')"
  shows "(\<forall>loc.
            process_item env fl tr item =
              Some (Normal,
                tr' @ [Printf ''Got 302. Writing %s\<newline>'' [U (Some loc)],
                       WriteFile (outputDir fl) (Title item @ ''.'' @ redirectFileExtension fl)
                         (URL_String loc)]) \<longrightarrow>
            err \<noteq> None \<and> (\<exists>r. res = Some r \<and> StatusCode r = 302)) \<and>
         (\<forall>r loc.
            res = Some r \<and> shouldRedirect (StatusCode r) \<and> StatusCode r \<noteq> 302 \<and>
            Location r = Loc loc \<and> Scheme loc = redirectFileExtension fl \<longrightarrow>
            (\<exists>hs. list_all is_HttpRequest hs \<and>
               process_item env fl tr item =
                 Some (Normal,
                   tr @ Printf ''Doing %s\<newline>'' [S (Title item)] # hs @
                   [Printf ''Error fetching: %s err: %s\<newline>''
                      [S (Title item), E (Some (UrlError (ErrorString ''caught redirect'')))]]) \<and>
               (\<forall>rest.
                  run_items env fl tr (item # rest) =
                    run_items env fl
                      (tr @ Printf ''Doing %s\<newline>'' [S (Title item)] # hs @
                       [Printf ''Error fetching: %s err: %s\<newline>''
                          [S (Title item),
                           E (Some (UrlError (ErrorString ''caught redirect'')))]])
                      rest)))"
proof (rule conjI; (rule allI)+; rule impI)
  fix loc
  assume "process_item env fl tr item =
      Some (Normal,
        tr' @ [Printf ''Got 302. Writing %s\<newline>'' [U (Some loc)],
               WriteFile (outputDir fl) (Title item @ ''.'' @ redirectFileExtension fl)
                 (URL_String loc)])"
  with process_item_fetches [OF assms]
  have "after_fetch fl item (res, err) tr' =
      (Normal,
        tr' @ [Printf ''Got 302. Writing %s\<newline>'' [U (Some loc)],
               WriteFile (outputDir fl) (Title item @ ''.'' @ redirectFileExtension fl)
                 (URL_String loc)])"
    by simp
  then show "err \<noteq> None \<and> (\<exists>r. res = Some r \<and> StatusCode r = 302)"
    by (rule after_fetch_found_only)
next
  fix r loc
  assume a: "res = Some r \<and> shouldRedirect (StatusCode r) \<and> StatusCode r \<noteq> 302 \<and>
            Location r = Loc loc \<and> Scheme loc = redirectFileExtension fl"
  with assms(4) have f: "fetch_item env fl tr item = Some ((Some r, err), tr')"
    by simp
  from a fetch_item_caught [OF f, of loc]
  have err: "err = Some (UrlError (ErrorString ''caught redirect''))"
    by simp
  from fetch_item_trace [OF f] obtain hs where
    hs: "tr' = tr @ Printf ''Doing %s\<newline>'' [S (Title item)] # hs" "list_all is_HttpRequest hs"
    by blast
  have "after_fetch fl item (Some r, err) tr' =
          (Normal, tr' @ [Printf ''Error fetching: %s err: %s\<newline>''
             [S (Title item), E (Some (UrlError (ErrorString ''caught redirect'')))]])"
    using err a
    by (simp add: after_fetch_def http_StatusFound_def error_fetching_def)
  with process_item_fetches [OF assms(1-3) f] hs(1)
  have p: "process_item env fl tr item =
      Some (Normal, tr @ Printf ''Doing %s\<newline>'' [S (Title item)] # hs @
               [Printf ''Error fetching: %s err: %s\<newline>''
                  [S (Title item), E (Some (UrlError (ErrorString ''caught redirect'')))]])"
    by simp
  have "\<forall>rest. run_items env fl tr (item # rest) =
      run_items env fl
        (tr @ Printf ''Doing %s\<newline>'' [S (Title item)] # hs @
               [Printf ''Error fetching: %s err: %s\<newline>''
                  [S (Title item), E (Some (UrlError (ErrorString ''caught redirect'')))]])
        rest"
    using run_items_step [OF p] by blast
  with p hs(2) show "\<exists>hs. list_all is_HttpRequest hs \<and>
               process_item env fl tr item =
                 Some (Normal,
                   tr @ Printf ''Doing %s\<newline>'' [S (Title item)] # hs @
                   [Printf ''Error fetching: %s err: %s\<newline>''
                      [S (Title item), E (Some (UrlError (ErrorString ''caught redirect'')))]]) \<and>
               (\<forall>rest.
                  run_items env fl tr (item # rest) =
                    run_items env fl
                      (tr @ Printf ''Doing %s\<newline>'' [S (Title item)] # hs @
                       [Printf ''Error fetching: %s err: %s\<newline>''
                          [S (Title item),
                           E (Some (UrlError (ErrorString ''caught redirect'')))]])
                      rest)"
    by blast
qed

text \<open>
  C3, at the link that answers 307 with a \<open>redirect\<close> URL.
\<close>

theorem redirect_other_status_not_captured_witness:
  "fetch_item demo_env demo_flags [] (demo_item thu ''http://h/temp'') =
     Some ((Some (reply 307 (Loc target) [] None),
            Some (UrlError (ErrorString ''caught redirect''))),
           [Printf ''Doing %s\<newline>'' [S ''t''], HttpRequest ''http://h/temp''])
   \<and> process_item demo_env demo_flags [] (demo_item thu ''http://h/temp'') =
     Some (Normal,
       [Printf ''Doing %s\<newline>'' [S ''t''], HttpRequest ''http://h/temp'',
        Printf ''Error fetching: %s err: %s\<newline>''
          [S ''t'', E (Some (UrlError (ErrorString ''caught redirect'')))]])"
proof -
  let ?item = "demo_item thu ''http://h/temp''"
  let ?r = "reply 307 (Loc target) [] None"
  have 1: "parse_date demo_env ?item = Inr ''2024-01-11''"
    by (simp add: demo_defs)
  have 2: "time_Format demo_env ''2024-01-11'' dateFormat = targetDate demo_flags"
    by (simp add: demo_defs)
  have 3: "\<not> dryRun demo_flags"
    by (simp add: demo_defs)
  have 4: "fetch_item demo_env demo_flags [] ?item =
      Some ((Some ?r, Some (UrlError (ErrorString ''caught redirect''))),
           [Printf ''Doing %s\<newline>'' [S ''t''], HttpRequest ''http://h/temp''])"
    by (simp add: demo_defs)
  have 5: "Some ?r = Some ?r \<and> shouldRedirect (StatusCode ?r) \<and> StatusCode ?r \<noteq> 302 \<and>
      Location ?r = Loc target \<and> Scheme target = redirectFileExtension demo_flags"
    by (simp add: demo_defs)
  from redirect_other_status_not_captured [OF 1 2 3 4, THEN conjunct2, rule_format, OF 5] 4
  show ?thesis
    by (simp add: demo_defs)
qed

text \<open>
  Claim C4. For every item that is fetched and whose fetch, after the redirects that were
  followed, returns a response with status 200 whose body reads as the bytes \<open>B\<close>, the
  program writes the file \<^verbatim>\<open><title>.<ext>\<close> in the output directory with content \<open>B\<close>, and
  no other file.
\<close>

theorem ok_body_is_written:
  assumes "parse_date env item = Inr t" and "time_Format env t dateFormat = targetDate fl"
    and "\<not> dryRun fl"
    and "fetch_item env fl tr item = Some ((Some r, err), tr')"
    and "StatusCode r = 200" and "io_ReadAll (Body r) = (B, rerr)"
  shows "\<exists>hs. list_all is_HttpRequest hs \<and>
           process_item env fl tr item =
             Some (Normal,
               tr @ Printf ''Doing %s\<newline>'' [S (Title item)] # hs @
               [Printf ''Writing %s\<newline>'' [S (Title item)],
                WriteFile (outputDir fl) (Title item @ ''.'' @ fileExtension fl) B,
                Printf ''Done %s\<newline>'' [S (Title item)]])"
proof -
  have err: "err = None"
  proof (cases err)
    case (Some e)
    with fetch_item_error [of env fl tr item "Some r" e tr'] assms(4,5) show ?thesis
      by (simp add: shouldRedirect_def)
  qed simp
  from fetch_item_trace [OF assms(4)] obtain hs where
    hs: "tr' = tr @ Printf ''Doing %s\<newline>'' [S (Title item)] # hs" "list_all is_HttpRequest hs"
    by blast
  have "after_fetch fl item (Some r, err) tr' =
          (Normal, tr' @ [Printf ''Writing %s\<newline>'' [S (Title item)],
                WriteFile (outputDir fl) (Title item @ ''.'' @ fileExtension fl) B,
                Printf ''Done %s\<newline>'' [S (Title item)]])"
    using err assms(5,6)
    by (simp add: after_fetch_def http_StatusFound_def http_StatusOK_def file_name_def)
  with process_item_fetches [OF assms(1-4)] hs show ?thesis by auto
qed

text \<open>
  C4, at the link that has moved: the client follows the 301 to the page, whose body
  \<^verbatim>\<open>ABC\<close> is written.
\<close>

theorem ok_body_is_written_witness:
  "fetch_item demo_env demo_flags [] (demo_item thu ''http://h/moved'') =
     Some ((Some (reply 200 NoLocation ''ABC'' None), None),
           [Printf ''Doing %s\<newline>'' [S ''t''], HttpRequest ''http://h/moved'',
            HttpRequest ''http://h/ok''])
   \<and> process_item demo_env demo_flags [] (demo_item thu ''http://h/moved'') =
     Some (Normal,
       [Printf ''Doing %s\<newline>'' [S ''t''], HttpRequest ''http://h/moved'',
        HttpRequest ''http://h/ok'', Printf ''Writing %s\<newline>'' [S ''t''],
        WriteFile ''out'' ''t.file'' ''ABC'', Printf ''Done %s\<newline>'' [S ''t'']])"
proof -
  let ?item = "demo_item thu ''http://h/moved''"
  have 1: "parse_date demo_env ?item = Inr ''2024-01-11''"
    by (simp add: demo_defs)
  have 2: "time_Format demo_env ''2024-01-11'' dateFormat = targetDate demo_flags"
    by (simp add: demo_defs)
  have 3: "\<not> dryRun demo_flags"
    by (simp add: demo_defs)
  have 4: "fetch_item demo_env demo_flags [] ?item =
      Some ((Some (reply 200 NoLocation ''ABC'' None), None),
           [Printf ''Doing %s\<newline>'' [S ''t''], HttpRequest ''http://h/moved'',
            HttpRequest ''http://h/ok''])"
    by (simp add: demo_defs)
  have 5: "StatusCode (reply 200 NoLocation ''ABC'' None) = 200"
    by (simp add: reply_def)
  have 6: "io_ReadAll (Body (reply 200 NoLocation ''ABC'' None)) = (''ABC'', None)"
    by (simp add: reply_def io_ReadAll_def)
  from ok_body_is_written [OF 1 2 3 4 5 6] 4 show ?thesis
    by (simp add: demo_defs)
qed

text \<open>
  Claim C10. For every item that is fetched and whose fetch returns status 200 with a
  body whose read fails, the error of the read is ignored: the file \<^verbatim>\<open><title>.<ext>\<close> is
  written with the bytes read before the failure, and the item is reported with
  \<^verbatim>\<open>Done\<close>, not as an error.
\<close>

theorem failed_read_still_written:
  assumes "parse_date env item = Inr t" and "time_Format env t dateFormat = targetDate fl"
    and "\<not> dryRun fl"
    and "fetch_item env fl tr item = Some ((Some r, err), tr')"
    and "StatusCode r = 200" and "failure (Body r) = Some rerr"
  shows "\<exists>hs. list_all is_HttpRequest hs \<and>
           process_item env fl tr item =
             Some (Normal,
               tr @ Printf ''Doing %s\<newline>'' [S (Title item)] # hs @
               [Printf ''Writing %s\<newline>'' [S (Title item)],
                WriteFile (outputDir fl) (Title item @ ''.'' @ fileExtension fl)
                  (delivered (Body r)),
                Printf ''Done %s\<newline>'' [S (Title item)]])"
proof -
  have err: "err = None"
  proof (cases err)
    case (Some e)
    with fetch_item_error [of env fl tr item "Some r" e tr'] assms(4,5) show ?thesis
      by (simp add: shouldRedirect_def)
  qed simp
  from fetch_item_trace [OF assms(4)] obtain hs where
    hs: "tr' = tr @ Printf ''Doing %s\<newline>'' [S (Title item)] # hs" "list_all is_HttpRequest hs"
    by blast
  have "after_fetch fl item (Some r, err) tr' =
          (Normal, tr' @ [Printf ''Writing %s\<newline>'' [S (Title item)],
                WriteFile (outputDir fl) (Title item @ ''.'' @ fileExtension fl)
                  (delivered (Body r)),
                Printf ''Done %s\<newline>'' [S (Title item)]])"
    using err assms(5)
    by (simp add: after_fetch_def http_StatusFound_def http_StatusOK_def file_name_def
          io_ReadAll_def)
  with process_item_fetches [OF assms(1-4)] hs show ?thesis by auto
qed

text \<open>
  C10, at the page whose body breaks off after \<^verbatim>\<open>AB\<close>.
\<close>

theorem failed_read_still_written_witness:
  "io_ReadAll (Body (reply 200 NoLocation ''AB'' (Some (ErrorString ''unexpected EOF'')))) =
     (''AB'', Some (ErrorString ''unexpected EOF''))
   \<and> process_item demo_env demo_flags [] (demo_item thu ''http://h/cut'') =
     Some (Normal,
       [Printf ''Doing %s\<newline>'' [S ''t''], HttpRequest ''http://h/cut'',
        Printf ''Writing %s\<newline>'' [S ''t''],
        WriteFile ''out'' ''t.file'' ''AB'', Printf ''Done %s\<newline>'' [S ''t'']])"
proof -
  let ?item = "demo_item thu ''http://h/cut''"
  let ?r = "reply 200 NoLocation ''AB'' (Some (ErrorString ''unexpected EOF''))"
  have 1: "parse_date demo_env ?item = Inr ''2024-01-11''"
    by (simp add: demo_defs)
  have 2: "time_Format demo_env ''2024-01-11'' dateFormat = targetDate demo_flags"
    by (simp add: demo_defs)
  have 3: "\<not> dryRun demo_flags"
    by (simp add: demo_defs)
  have 4: "fetch_item demo_env demo_flags [] ?item =
      Some ((Some ?r, None),
           [Printf ''Doing %s\<newline>'' [S ''t''], HttpRequest ''http://h/cut''])"
    by (simp add: demo_defs)
  have 5: "StatusCode ?r = 200"
    by (simp add: reply_def)
  have 6: "failure (Body ?r) = Some (ErrorString ''unexpected EOF'')"
    by (simp add: reply_def)
  from failed_read_still_written [OF 1 2 3 4 5 6] show ?thesis
    by (simp add: demo_defs)
qed

section \<open>The date filter and the dry run\<close>

text \<open>
  Claim C5. For every item whose publish date parses under the fixed layout but whose
  parsed time, formatted as it is with the layout \<^verbatim>\<open>2006-01-02\<close>, differs from the target
  date, the item is skipped: the program sends no request and writes no file, and prints
  the mismatch only when it is verbose.
\<close>

theorem date_mismatch_is_skipped:
  assumes "parse_date env item = Inr t" and "time_Format env t dateFormat \<noteq> targetDate fl"
  shows "process_item env fl tr item =
           Some (Normal,
             if verbose fl
             then tr @ [Printf ''Skipping, date mismatch: %s %s\<newline>''
                          [S (Title item), S (time_Format env t dateFormat)]]
             else tr)"
  using assms by (auto simp: process_item_def)

text \<open>
  C5, at an item of 12 January when the target date is 11 January, quiet and verbose.
\<close>

theorem date_mismatch_is_skipped_witness:
  "parse_date demo_env (demo_item fri ''http://h/ok'') = Inr ''2024-01-12''
   \<and> targetDate demo_flags = ''2024-01-11''
   \<and> process_item demo_env demo_flags [] (demo_item fri ''http://h/ok'') = Some (Normal, [])
   \<and> process_item demo_env (demo_flags\<lparr>verbose := True\<rparr>) [] (demo_item fri ''http://h/ok'') =
       Some (Normal, [Printf ''Skipping, date mismatch: %s %s\<newline>'' [S ''t'', S ''2024-01-12'']])"
proof -
  let ?item = "demo_item fri ''http://h/ok''"
  have 1: "parse_date demo_env ?item = Inr ''2024-01-12''"
    by (simp add: demo_defs)
  have 2: "time_Format demo_env ''2024-01-12'' dateFormat \<noteq> targetDate demo_flags"
    by (simp add: demo_defs)
  have 3: "time_Format demo_env ''2024-01-12'' dateFormat \<noteq> targetDate (demo_flags\<lparr>verbose := True\<rparr>)"
    by (simp add: demo_defs)
  from date_mismatch_is_skipped [OF 1 2, of "[]"] date_mismatch_is_skipped [OF 1 3, of "[]"] 1
  show ?thesis
    by (simp add: demo_defs)
qed

text \<open>
  Claim C7. For every item whose publish date does not parse under the layout
  \<^verbatim>\<open>Mon, 2 Jan 2006 15:04:05 +0000\<close>, the program prints the parse error, sends no request
  and writes no file for the item, and continues with the next item.
\<close>

theorem unparsed_date_is_skipped:
  assumes "parse_date env item = Inl e"
  shows "process_item env fl tr item =
           Some (Normal,
             tr @ [Printf ''Err parsing time: %s %s\<newline>'' [S (Title item), E (Some e)]]) \<and>
         run_items env fl tr (item # rest) =
           run_items env fl
             (tr @ [Printf ''Err parsing time: %s %s\<newline>'' [S (Title item), E (Some e)]])
             rest"
  using assms by (simp add: process_item_def)

text \<open>
  C7, at an item dated \<^verbatim>\<open>11/01/2024\<close>, followed by an item that is downloaded.
\<close>

theorem unparsed_date_is_skipped_witness:
  "parse_date demo_env (demo_item ''11/01/2024'' ''http://h/ok'') = Inl (ErrorString ''cannot parse'')
   \<and> process_item demo_env demo_flags [] (demo_item ''11/01/2024'' ''http://h/ok'') =
       Some (Normal,
         [Printf ''Err parsing time: %s %s\<newline>'' [S ''t'', E (Some (ErrorString ''cannot parse''))]])
   \<and> run_items demo_env demo_flags []
         [demo_item ''11/01/2024'' ''http://h/ok'', demo_item thu ''http://h/ok''] =
       Some (Normal,
         [Printf ''Err parsing time: %s %s\<newline>'' [S ''t'', E (Some (ErrorString ''cannot parse''))],
          Printf ''Doing %s\<newline>'' [S ''t''], HttpRequest ''http://h/ok'',
          Printf ''Writing %s\<newline>'' [S ''t''], WriteFile ''out'' ''t.file'' ''ABC'',
          Printf ''Done %s\<newline>'' [S ''t'']])"
proof -
  let ?item = "demo_item ''11/01/2024'' ''http://h/ok''"
  have 1: "parse_date demo_env ?item = Inl (ErrorString ''cannot parse'')"
    by (simp add: demo_defs)
  from unparsed_date_is_skipped [OF 1, of demo_flags "[]" "[demo_item thu ''http://h/ok'']"] 1
  show ?thesis
    by (simp add: demo_defs)
qed

lemma process_item_dry_run:
  assumes "dryRun fl"
  shows "\<exists>ps. list_all is_Printf ps \<and> process_item env fl tr item = Some (Normal, tr @ ps)"
proof (cases "parse_date env item")
  case (Inl e)
  then show ?thesis by (simp add: process_item_def)
next
  case (Inr t)
  with assms show ?thesis by (simp add: process_item_def)
qed

lemma run_items_dry_run:
  assumes "dryRun fl"
  shows "\<exists>ps. list_all is_Printf ps \<and> run_items env fl tr items = Some (Normal, tr @ ps)"
proof (induction items arbitrary: tr)
  case Nil
  show ?case by simp
next
  case (Cons item items)
  from process_item_dry_run [OF assms, of env tr item] obtain ps where
    ps: "list_all is_Printf ps" "process_item env fl tr item = Some (Normal, tr @ ps)" by blast
  from Cons [of "tr @ ps"] obtain qs where
    qs: "list_all is_Printf qs" "run_items env fl (tr @ ps) items = Some (Normal, (tr @ ps) @ qs)"
    by blast
  from ps qs have "list_all is_Printf (ps @ qs) \<and>
      run_items env fl tr (item # items) = Some (Normal, tr @ (ps @ qs))"
    by simp
  then show ?case by blast
qed

text \<open>
  Claim C6, as amended. When dry-run is enabled, the program sends no request for an
  item's link and writes no file, for every item and for the whole loop, whatever the dates:
  all that it adds to the trace are \<^verbatim>\<open>Printf\<close> lines. An item whose date parses and
  equals the target date stops after the report of the intended download.
\<close>

theorem dry_run_only_prints:
  assumes "dryRun fl"
  shows "(\<exists>ps. list_all is_Printf ps \<and> process_item env fl tr item = Some (Normal, tr @ ps)) \<and>
         (\<exists>ps. list_all is_Printf ps \<and> run_items env fl tr items = Some (Normal, tr @ ps)) \<and>
         (\<forall>t. parse_date env item = Inr t \<longrightarrow> time_Format env t dateFormat = targetDate fl \<longrightarrow>
            process_item env fl tr item =
              Some (Normal,
                tr @ [Printf ''Skipping download, dry run enabled %s\<newline>%s\<newline>''
                        [S (Title item), S (Link item)]]))"
proof (intro conjI allI impI)
  show "\<exists>ps. list_all is_Printf ps \<and> process_item env fl tr item = Some (Normal, tr @ ps)"
    by (rule process_item_dry_run [OF assms])
  show "\<exists>ps. list_all is_Printf ps \<and> run_items env fl tr items = Some (Normal, tr @ ps)"
    by (rule run_items_dry_run [OF assms])
next
  fix t
  assume "parse_date env item = Inr t" and "time_Format env t dateFormat = targetDate fl"
  with assms show "process_item env fl tr item =
      Some (Normal,
        tr @ [Printf ''Skipping download, dry run enabled %s\<newline>%s\<newline>''
                [S (Title item), S (Link item)]])"
    by (simp add: process_item_def)
qed

text \<open>
  C6, at a feed of two items under dry-run: a link that redirects, of another date, and
  a page of the target date.
\<close>

theorem dry_run_only_prints_witness:
  "dryRun (demo_flags\<lparr>dryRun := True\<rparr>)
   \<and> process_item demo_env (demo_flags\<lparr>dryRun := True\<rparr>) [] (demo_item thu ''http://h/ok'') =
       Some (Normal,
         [Printf ''Skipping download, dry run enabled %s\<newline>%s\<newline>'' [S ''t'', S ''http://h/ok'']])
   \<and> run_items demo_env (demo_flags\<lparr>dryRun := True\<rparr>) []
         [demo_item fri ''http://h/found'', demo_item thu ''http://h/ok''] =
       Some (Normal,
         [Printf ''Skipping download, dry run enabled %s\<newline>%s\<newline>'' [S ''t'', S ''http://h/ok'']])"
proof -
  have 1: "dryRun (demo_flags\<lparr>dryRun := True\<rparr>)"
    by simp
  from dry_run_only_prints [OF 1, of demo_env "[]" "demo_item thu ''http://h/ok''" "[]"] 1
  show ?thesis
    by (simp add: demo_defs)
qed

text \<open>
  C6 as stated fails: under dry-run an item of another date stops at the date filter,
  before the dry-run test, and the intended action is not reported: nothing is printed.
\<close>

theorem dry_run_date_mismatch_counterexample:
  "dryRun (demo_flags\<lparr>dryRun := True\<rparr>)
   \<and> process_item demo_env (demo_flags\<lparr>dryRun := True\<rparr>) [] (demo_item fri ''http://h/ok'') =
       Some (Normal, [])"
  by (simp add: demo_defs)

section \<open>Failed fetches, the feed and its decoding\<close>

text \<open>
  Claim C8, as amended. For every item that is fetched and whose fetch ends without a
  response, or with a response whose status is not 200 and that is not a captured
  redirect (an error together with status 302), no file is written and the loop continues
  with the next item. When the fetch returned an error, the program prints it in the
  \<^verbatim>\<open>Error fetching\<close> line; when it returned a response with another status and no
  error, the program prints only \<^verbatim>\<open>Done\<close>.
\<close>

theorem failed_fetch_writes_nothing:
  assumes "parse_date env item = Inr t" and "time_Format env t dateFormat = targetDate fl"
    and "\<not> dryRun fl"
    and "fetch_item env fl tr item = Some ((res, err), tr')"
    and "case res of None \<Rightarrow> True
         | Some r \<Rightarrow> StatusCode r \<noteq> 200 \<and> (err = None \<or> StatusCode r \<noteq> 302)"
  shows "\<exists>hs. list_all is_HttpRequest hs \<and>
           process_item env fl tr item =
             Some (Normal,
               tr @ Printf ''Doing %s\<newline>'' [S (Title item)] # hs @
               [if err = None then Printf ''Done %s\<newline>'' [S (Title item)]
                else Printf ''Error fetching: %s err: %s\<newline>'' [S (Title item), E err]]) \<and>
           run_items env fl tr (item # rest) =
             run_items env fl
               (tr @ Printf ''Doing %s\<newline>'' [S (Title item)] # hs @
                [if err = None then Printf ''Done %s\<newline>'' [S (Title item)]
                 else Printf ''Error fetching: %s err: %s\<newline>'' [S (Title item), E err]])
               rest"
proof -
  from fetch_item_trace [OF assms(4)] obtain hs where
    hs: "tr' = tr @ Printf ''Doing %s\<newline>'' [S (Title item)] # hs" "list_all is_HttpRequest hs"
    by blast
  have "after_fetch fl item (res, err) tr' =
          (Normal, tr' @ [if err = None then Printf ''Done %s\<newline>'' [S (Title item)]
                else Printf ''Error fetching: %s err: %s\<newline>'' [S (Title item), E err]])"
  proof (cases res)
    case None
    with fetch_item_no_error [of env fl tr item res tr'] assms(4) have "err \<noteq> None"
      by auto
    with None show ?thesis
      by (simp add: after_fetch_def error_fetching_def)
  next
    case (Some r)
    with assms(5) show ?thesis
      by (auto simp: after_fetch_def error_fetching_def http_StatusFound_def http_StatusOK_def)
  qed
  with process_item_fetches [OF assms(1-4)] hs(1)
  have p: "process_item env fl tr item =
      Some (Normal, tr @ Printf ''Doing %s\<newline>'' [S (Title item)] # hs @
               [if err = None then Printf ''Done %s\<newline>'' [S (Title item)]
                else Printf ''Error fetching: %s err: %s\<newline>'' [S (Title item), E err]])"
    by simp
  from p run_items_step [OF p] hs(2) show ?thesis by blast
qed

text \<open>
  C8, at an unreachable link followed by a page that is downloaded.
\<close>

theorem failed_fetch_writes_nothing_witness:
  "fetch_item demo_env demo_flags [] (demo_item thu ''http://h/down'') =
     Some ((None, Some (UrlError (ErrorString ''no such host''))),
           [Printf ''Doing %s\<newline>'' [S ''t''], HttpRequest ''http://h/down''])
   \<and> run_items demo_env demo_flags []
         [demo_item thu ''http://h/down'', demo_item thu ''http://h/ok''] =
       Some (Normal,
         [Printf ''Doing %s\<newline>'' [S ''t''], HttpRequest ''http://h/down'',
          Printf ''Error fetching: %s err: %s\<newline>''
            [S ''t'', E (Some (UrlError (ErrorString ''no such host'')))],
          Printf ''Doing %s\<newline>'' [S ''t''], HttpRequest ''http://h/ok'',
          Printf ''Writing %s\<newline>'' [S ''t''], WriteFile ''out'' ''t.file'' ''ABC'',
          Printf ''Done %s\<newline>'' [S ''t'']])"
proof -
  let ?item = "demo_item thu ''http://h/down''"
  have 1: "parse_date demo_env ?item = Inr ''2024-01-11''"
    by (simp add: demo_defs)
  have 2: "time_Format demo_env ''2024-01-11'' dateFormat = targetDate demo_flags"
    by (simp add: demo_defs)
  have 3: "\<not> dryRun demo_flags"
    by (simp add: demo_defs)
  have 4: "fetch_item demo_env demo_flags [] ?item =
      Some ((None, Some (UrlError (ErrorString ''no such host''))),
           [Printf ''Doing %s\<newline>'' [S ''t''], HttpRequest ''http://h/down''])"
    by (simp add: demo_defs)
  have 5: "case None :: http_Response option of None \<Rightarrow> True
         | Some r \<Rightarrow> StatusCode r \<noteq> 200 \<and>
             (Some (UrlError (ErrorString ''no such host'')) = None \<or> StatusCode r \<noteq> 302)"
    by simp
  from failed_fetch_writes_nothing [OF 1 2 3 4 5, of "[demo_item thu ''http://h/ok'']"] 4
  show ?thesis
    by (simp add: demo_defs)
qed

text \<open>
  C8 as stated fails: for a link that answers 404 nothing reports the status; the item
  is printed as \<^verbatim>\<open>Done\<close>.
\<close>

theorem not_found_reported_done_counterexample:
  "send demo_env [Printf ''Doing %s\<newline>'' [S ''t'']] ''http://h/gone'' =
     Reply (reply 404 NoLocation ''no'' None)
   \<and> process_item demo_env demo_flags [] (demo_item thu ''http://h/gone'') =
     Some (Normal,
       [Printf ''Doing %s\<newline>'' [S ''t''], HttpRequest ''http://h/gone'',
        Printf ''Done %s\<newline>'' [S ''t'']])"
  by (simp add: demo_defs)

lemma process_item_decoder [simp]:
  "process_item (env\<lparr>xml_Unmarshal := f\<rparr>) fl tr item = process_item env fl tr item"
  by (simp add: process_item_def parse_date_def fetch_item_def split: sum.splits)

lemma run_items_decoder [simp]:
  "run_items (env\<lparr>xml_Unmarshal := f\<rparr>) fl tr items = run_items env fl tr items"
  by (induction items arbitrary: tr) (simp_all split: option.splits prod.splits control.splits)

text \<open>
  After a feed response with status 200 the run is the loop over the decoded items,
  whatever the decoder returned as its error, and it ends normally when it ends.
\<close>

lemma main_decoded:
  assumes "url fl \<noteq> []" and "http_Get (send env) [banner fl] (url fl) = Some ((Some res, err), tr)"
    and "StatusCode res = 200"
    and "xml_Unmarshal env (fst (io_ReadAll (Body res))) zero_Response = (r, derr)"
  shows "main env fl =
           (case run_items env fl
                   (tr @ [Printf ''Found %d items, starting download...\<newline>''
                            [D (length (Items (Ch r)))]])
                   (Items (Ch r)) of
              None \<Rightarrow> None
            | Some (c, tr') \<Rightarrow> Some (Normal, tr' @ [Println ''Done all!'']))"
proof (cases "run_items env fl
                   (tr @ [Printf ''Found %d items, starting download...\<newline>''
                            [D (length (Items (Ch r)))]])
                   (Items (Ch r))")
  case None
  with assms show ?thesis by (simp add: main_def)
next
  case (Some y)
  obtain c tr' where y: "y = (c, tr')" by (cases y)
  with Some run_items_Normal have "c = Normal" by blast
  with Some y assms show ?thesis by (simp add: main_def)
qed

text \<open>
  Claim C9. When the feed is fetched with status 200 and the XML decoder fails with an
  error, leaving \<open>r\<close> in the zero-initialised \<^verbatim>\<open>Response\<close>, the error is dropped: the run is
  the run of a decoder that returns \<open>r\<close> and no error. It prints the number of items of \<open>r\<close>,
  processes them in order and, when their requests return, ends normally with
  \<^verbatim>\<open>Done all!\<close>; with no item it prints the count 0 and \<^verbatim>\<open>Done all!\<close>.
\<close>

theorem decode_error_is_swallowed:
  assumes "url fl \<noteq> []" and "http_Get (send env) [banner fl] (url fl) = Some ((Some res, err), tr)"
    and "StatusCode res = 200"
    and "xml_Unmarshal env (fst (io_ReadAll (Body res))) zero_Response = (r, Some derr)"
  shows "main env fl = main (env\<lparr>xml_Unmarshal := \<lambda>b z. (r, None)\<rparr>) fl \<and>
         main env fl =
           (case run_items env fl
                   (tr @ [Printf ''Found %d items, starting download...\<newline>''
                            [D (length (Items (Ch r)))]])
                   (Items (Ch r)) of
              None \<Rightarrow> None
            | Some (c, tr') \<Rightarrow> Some (Normal, tr' @ [Println ''Done all!''])) \<and>
         (Items (Ch r) = [] \<longrightarrow>
            main env fl =
              Some (Normal,
                tr @ [Printf ''Found %d items, starting download...\<newline>'' [D 0],
                      Println ''Done all!'']))"
proof -
  let ?env = "env\<lparr>xml_Unmarshal := \<lambda>b z. (r, None)\<rparr>"
  have a: "main env fl =
           (case run_items env fl
                   (tr @ [Printf ''Found %d items, starting download...\<newline>''
                            [D (length (Items (Ch r)))]])
                   (Items (Ch r)) of
              None \<Rightarrow> None
            | Some (c, tr') \<Rightarrow> Some (Normal, tr' @ [Println ''Done all!'']))"
    by (rule main_decoded [OF assms])
  have g: "http_Get (send ?env) [banner fl] (url fl) = Some ((Some res, err), tr)"
    using assms(2) by simp
  have u: "xml_Unmarshal ?env (fst (io_ReadAll (Body res))) zero_Response = (r, None)"
    by simp
  have b: "main ?env fl = main env fl"
    using main_decoded [OF assms(1) g assms(3) u] a by simp
  from a b show ?thesis by simp
qed

text \<open>
  C9, at the feed that breaks off in its second item: the decoder fails, the first item
  is downloaded.
\<close>

theorem decode_error_is_swallowed_witness:
  "xml_Unmarshal demo_env demo_feed zero_Response =
     (\<lparr>Ch = \<lparr>ChannelTitle = [], Items = [demo_item thu ''http://h/ok'']\<rparr>\<rparr>,
      Some (ErrorString ''XML syntax error: unexpected EOF''))
   \<and> main demo_env demo_flags =
       Some (Normal,
         [banner demo_flags, HttpRequest ''http://h/feed'',
          Printf ''Found %d items, starting download...\<newline>'' [D 1],
          Printf ''Doing %s\<newline>'' [S ''t''], HttpRequest ''http://h/ok'',
          Printf ''Writing %s\<newline>'' [S ''t''], WriteFile ''out'' ''t.file'' ''ABC'',
          Printf ''Done %s\<newline>'' [S ''t''], Println ''Done all!''])"
proof -
  let ?res = "reply 200 NoLocation demo_feed None"
  let ?r = "\<lparr>Ch = \<lparr>ChannelTitle = [], Items = [demo_item thu ''http://h/ok'']\<rparr>\<rparr>"
  have 1: "url demo_flags \<noteq> []"
    by (simp add: demo_flags_def)
  have 2: "http_Get (send demo_env) [banner demo_flags] (url demo_flags) =
      Some ((Some ?res, None), [banner demo_flags, HttpRequest ''http://h/feed''])"
    by (simp add: http_Get_def defaultCheckRedirect_def demo_defs)
  have 3: "StatusCode ?res = 200"
    by (simp add: reply_def)
  have 4: "xml_Unmarshal demo_env (fst (io_ReadAll (Body ?res))) zero_Response =
      (?r, Some (ErrorString ''XML syntax error: unexpected EOF''))"
    by (simp add: demo_env_def demo_Unmarshal_def reply_def io_ReadAll_def zero_Response_def)
  have 5: "xml_Unmarshal demo_env demo_feed zero_Response =
      (?r, Some (ErrorString ''XML syntax error: unexpected EOF''))"
    by (simp add: demo_env_def demo_Unmarshal_def zero_Response_def)
  have 6: "run_items demo_env demo_flags
      ([banner demo_flags, HttpRequest ''http://h/feed''] @
        [Printf ''Found %d items, starting download...\<newline>''
           [D (length (Items (Ch ?r)))]]) (Items (Ch ?r)) =
      Some (Normal,
         [banner demo_flags, HttpRequest ''http://h/feed'',
          Printf ''Found %d items, starting download...\<newline>'' [D 1],
          Printf ''Doing %s\<newline>'' [S ''t''], HttpRequest ''http://h/ok'',
          Printf ''Writing %s\<newline>'' [S ''t''], WriteFile ''out'' ''t.file'' ''ABC'',
          Printf ''Done %s\<newline>'' [S ''t'']])"
    by (simp add: demo_defs)
  from decode_error_is_swallowed [OF 1 2 3 4, THEN conjunct2, THEN conjunct1] 5 6
  show ?thesis
    by simp
qed

text \<open>
  A feed response with a status other than 200 ends the run after the error line: no item
  is processed.
\<close>

lemma feed_status_aborts:
  assumes "url fl \<noteq> []" and "http_Get (send env) [banner fl] (url fl) = Some ((Some res, err), tr)"
    and "StatusCode res \<noteq> 200"
  shows "main env fl = Some (Normal, tr @ [Printf ''Error fetching! %s'' [E err]])"
  using assms by (simp add: main_def)

text \<open>
  When the feed request fails without a response, \<^verbatim>\<open>res\<close> is nil and \<^verbatim>\<open>res.StatusCode\<close>
  panics: the error line is never printed.
\<close>

lemma feed_transport_error_panics:
  assumes "url fl \<noteq> []" and "http_Get (send env) [banner fl] (url fl) = Some ((None, err), tr)"
  shows "main env fl = Some (Panic nil_dereference, tr)"
  using assms by (simp add: main_def)

text \<open>
  Claim C2 fails on the code. With an unreachable feed URL, \<^verbatim>\<open>http.Get\<close> returns no
  response and an error; \<^verbatim>\<open>main\<close> reads \<^verbatim>\<open>res.StatusCode\<close> before it looks at the error, and
  the run ends in a nil pointer dereference instead of the error branch.
\<close>

theorem unreachable_feed_panics:
  "http_Get (send demo_env) [banner (demo_flags\<lparr>url := ''http://h/down''\<rparr>)] ''http://h/down'' =
     Some ((None, Some (UrlError (ErrorString ''no such host''))),
           [banner (demo_flags\<lparr>url := ''http://h/down''\<rparr>), HttpRequest ''http://h/down''])
   \<and> main demo_env (demo_flags\<lparr>url := ''http://h/down''\<rparr>) =
     Some (Panic nil_dereference,
           [banner (demo_flags\<lparr>url := ''http://h/down''\<rparr>), HttpRequest ''http://h/down''])"
  by (simp add: main_def http_Get_def defaultCheckRedirect_def demo_defs)

end
